theory Spec2Isabelle
  imports Complex_Main "HOL-Library.Sublist" "HOL-Library.Word"
begin

section \<open>The Map component of hoopmap (src/components/Map.tsx)\<close>

text \<open>
  The component wraps one mapbox-gl widget. Everything it does is a sequence of calls into
  the widget library, reads and writes of two refs (\<open>map\<close>, \<open>mapContainer\<close>) and one piece
  of React state (\<open>mapError\<close>). The embedding passes the component's state explicitly and
  records every library call, in order, in a trace. The library is opaque: whether a call
  throws is decided by a parameter of every function below, which sees the calls made so
  far and the call being made.
\<close>

subsection \<open>Data\<close>

text \<open>A JavaScript number whose only use is to be rendered into text. A number is a
  double. Every integer of magnitude below \<open>2^53\<close> is a double: such a number is given by
  its sign and its magnitude (\<open>-0\<close> is a number too). \<open>Number::toString\<close> is injective on
  the other doubles, so any other double is given by its rendering (\<open>2.5\<close>, \<open>1e+21\<close>,
  \<open>18446744073709552000\<close>, \<open>NaN\<close>).\<close>

datatype number = Integer bool "53 word" | Other string

text \<open>Lines 11-18: the properties of one court. \<open>id\<close> is the identity function of HOL,
  so the field is \<open>id_str\<close>.\<close>

record BasketballCourtProperties =
  id_str :: string
  name :: string
  description :: string
  courtType :: string
  hoops :: number
  surface :: string

text \<open>Arrays of numbers are objects: a feature holds a reference to its coordinate array,
  the arrays live in a store (a list, the reference is the index).\<close>

type_synonym addr = nat

record feature =
  properties :: BasketballCourtProperties
  geometry_coordinates :: addr

type_synonym element = nat
type_synonym handle = nat

record map_options =
  container :: element
  style :: string
  center :: "real list"
  zoom :: real

datatype json = JNum real | JStr string | JArr "json list"

record layer =
  layer_id :: string
  layer_type :: string
  layer_source :: string
  layout :: "(string \<times> json) list"
  paint :: "(string \<times> json) list"

text \<open>The five closures the component hands to \<open>map.on\<close>.\<close>

datatype listener =
    Load_listener
  | Error_listener
  | Click_listener
  | Mouseenter_listener
  | Mouseleave_listener

text \<open>The calls into the library. A method of the map names the instance it is called on;
  a listener registration names the event, the layer (if any) and the closure.\<close>

datatype call =
    New_Map map_options
  | Map_on handle string "string option" listener
  | Map_addSource handle string "feature list"
  | Map_addLayer handle layer
  | New_NavigationControl
  | Map_addControl handle string
  | Map_getCanvas handle
  | Map_remove handle
  | New_Popup
  | Popup_setLngLat addr
  | Popup_setHTML string
  | Popup_addTo "handle option"

datatype js_exn = TypeError | Thrown string

datatype console_entry =
    Console_log string
  | Console_error string js_exn

text \<open>Lines 21, 24-26: the module constant \<open>typedBasketballCourts\<close> (the bundled JSON
  file is not part of the sources, so its content is arbitrary), the two refs, the React
  state, and what the component can observe or change outside itself: the trace of library
  calls, the console, the cursor style of the canvas, and the array store.\<close>

record component =
  map_current :: "handle option"
  mapContainer_current :: "element option"
  mapError :: "string option"
  typedBasketballCourts :: "feature list"
  arrays :: "real list list"
  calls :: "call list"
  console :: "console_entry list"
  canvas_cursor :: string

text \<open>The library: given the calls made so far and the call being made, the exception it
  throws, if any.\<close>

type_synonym library = "call list \<Rightarrow> call \<Rightarrow> js_exn option"

text \<open>A computation either completes with a state or throws; the state at the throw is
  kept, since the writes made before it are not undone.\<close>

type_synonym outcome = "(js_exn \<times> component) + component"

definition and_then :: "outcome \<Rightarrow> (component \<Rightarrow> outcome) \<Rightarrow> outcome" where
  "and_then r f = (case r of Inl e \<Rightarrow> Inl e | Inr c \<Rightarrow> f c)"

definition final_state :: "outcome \<Rightarrow> component" where
  "final_state r = (case r of Inl (x, c) \<Rightarrow> c | Inr c \<Rightarrow> c)"

definition invoke :: "library \<Rightarrow> call \<Rightarrow> component \<Rightarrow> outcome" where
  "invoke lib k c =
     (let c' = c\<lparr>calls := calls c @ [k]\<rparr>
      in case lib (calls c) k of Some x \<Rightarrow> Inl (x, c') | None \<Rightarrow> Inr c')"

text \<open>\<open>map.current.m(...)\<close>: a method call on whatever the ref holds; on \<open>null\<close> it is a
  TypeError.\<close>

definition on_map :: "library \<Rightarrow> (handle \<Rightarrow> call) \<Rightarrow> component \<Rightarrow> outcome" where
  "on_map lib m c =
     (case map_current c of
        None \<Rightarrow> Inl (TypeError, c)
      | Some h \<Rightarrow> invoke lib (m h) c)"

subsection \<open>Module initialisation and rendering\<close>

text \<open>Line 8: \<open>mapboxgl.accessToken = import.meta.env.VITE_MAPBOX_ACCESS_TOKEN || ''\<close>.
  An undefined variable and an empty one both give the empty string.\<close>

definition accessToken :: "string option \<Rightarrow> string" where
  "accessToken env = (case env of None \<Rightarrow> [] | Some s \<Rightarrow> if s = [] then [] else s)"

text \<open>Lines 24-26: the state of a fresh component, for a given data file and store.\<close>

definition initial :: "feature list \<Rightarrow> real list list \<Rightarrow> component" where
  "initial courts store =
     \<lparr>map_current = None, mapContainer_current = None, mapError = None,
      typedBasketballCourts = courts, arrays = store, calls = [], console = [],
      canvas_cursor = []\<rparr>"

text \<open>Lines 149-150: the first render attaches the container \<open>div\<close> to \<open>mapContainer\<close>.\<close>

definition attach :: "element \<Rightarrow> component \<Rightarrow> component" where
  "attach d c = c\<lparr>mapContainer_current := Some d\<rparr>"

text \<open>Lines 159-172: \<open>{mapError && (<div ...>{mapError}</div>)}\<close>. The banner is shown when
  \<open>mapError\<close> is a non-empty string; this is the state the specification calls
  ErrorDisplayed.\<close>

definition banner :: "component \<Rightarrow> string option" where
  "banner c = (case mapError c of None \<Rightarrow> None | Some s \<Rightarrow> if s = [] then None else Some s)"

subsection \<open>The listeners\<close>

text \<open>Lines 57-67 and 70-85: the two layers.\<close>

definition circle_layer :: layer where
  "circle_layer =
     \<lparr>layer_id = ''basketball-courts-layer'', layer_type = ''circle'',
      layer_source = ''basketball-courts'', layout = [],
      paint = [(''circle-radius'', JNum 8), (''circle-color'', JStr ''#FF5733''),
               (''circle-stroke-width'', JNum 2), (''circle-stroke-color'', JStr ''#ffffff'')]\<rparr>"

definition label_layer :: layer where
  "label_layer =
     \<lparr>layer_id = ''court-labels'', layer_type = ''symbol'',
      layer_source = ''basketball-courts'',
      layout = [(''text-field'', JArr [JStr ''get'', JStr ''name'']),
                (''text-font'', JArr [JStr ''Open Sans Regular'']),
                (''text-offset'', JArr [JNum 0, JNum 1.5]),
                (''text-anchor'', JStr ''top'')],
      paint = [(''text-color'', JStr ''#333''), (''text-halo-color'', JStr ''#fff''),
               (''text-halo-width'', JNum 1)]\<rparr>"

text \<open>Template literals render a number with \<open>Number::toString\<close>: for an integer of
  magnitude below \<open>2^53\<close> the decimal digits of the magnitude, after a minus sign when the
  number is negative (\<open>-0\<close> renders as \<open>0\<close>).\<close>

fun digits10 :: "nat \<Rightarrow> string" where
  "digits10 n =
     (if n < 10 then [''0123456789'' ! n]
      else digits10 (n div 10) @ [''0123456789'' ! (n mod 10)])"

declare digits10.simps [simp del]

definition number_toString :: "number \<Rightarrow> string" where
  "number_toString x =
     (case x of
        Integer negative m \<Rightarrow> (if negative \<and> m \<noteq> 0 then ''-'' else []) @ digits10 (unat m)
      | Other s \<Rightarrow> s)"

text \<open>Lines 98-106: the popup body, with the line breaks and indentation of the source.\<close>

definition popupContent :: "BasketballCourtProperties \<Rightarrow> string" where
  "popupContent props =
     ''\<newline>                            <h3>'' @ name props @
     ''</h3>\<newline>                            <p>'' @ description props @
     ''</p>\<newline>                            <ul>\<newline>                                <li><strong>Type:</strong> '' @
     courtType props @
     ''</li>\<newline>                                <li><strong>Hoops:</strong> '' @
     number_toString (hoops props) @
     ''</li>\<newline>                                <li><strong>Surface:</strong> '' @
     surface props @
     ''</li>\<newline>                            </ul>\<newline>                        ''"

text \<open>Line 95: \<open>coordinates.slice()\<close> allocates a new array with the same elements. A
  feature without a coordinate array (the reference is not in the store) makes it a
  TypeError.\<close>

definition slice_array :: "addr \<Rightarrow> component \<Rightarrow> (js_exn \<times> component) + (addr \<times> component)" where
  "slice_array a c =
     (if a < length (arrays c)
      then Inr (length (arrays c), c\<lparr>arrays := arrays c @ [arrays c ! a]\<rparr>)
      else Inl (TypeError, c))"

text \<open>Lines 88-112: the click listener. \<open>fs\<close> is \<open>e.features\<close>, which may be absent.\<close>

definition click_listener :: "library \<Rightarrow> feature list option \<Rightarrow> component \<Rightarrow> outcome" where
  "click_listener lib fs c =
     (case fs of
        None \<Rightarrow> Inr c
      | Some [] \<Rightarrow> Inr c
      | Some (feature # rest) \<Rightarrow>
          (if map_current c = None then Inr c
           else
             (let props = properties feature in
              (case slice_array (geometry_coordinates feature) c of
                 Inl e \<Rightarrow> Inl e
               | Inr (coordinates, c1) \<Rightarrow>
                   and_then (invoke lib New_Popup c1) (\<lambda>c2.
                   and_then (invoke lib (Popup_setLngLat coordinates) c2) (\<lambda>c3.
                   and_then (invoke lib (Popup_setHTML (popupContent props)) c3) (\<lambda>c4.
                   invoke lib (Popup_addTo (map_current c4)) c4)))))))"

text \<open>Lines 115-121: the hover listeners.\<close>

definition set_cursor :: "library \<Rightarrow> string \<Rightarrow> component \<Rightarrow> outcome" where
  "set_cursor lib s c =
     (case map_current c of
        None \<Rightarrow> Inr c
      | Some h \<Rightarrow>
          and_then (invoke lib (Map_getCanvas h) c) (\<lambda>c1. Inr (c1\<lparr>canvas_cursor := s\<rparr>)))"

definition mouseenter_listener :: "library \<Rightarrow> component \<Rightarrow> outcome" where
  "mouseenter_listener lib c = set_cursor lib ''pointer'' c"

definition mouseleave_listener :: "library \<Rightarrow> component \<Rightarrow> outcome" where
  "mouseleave_listener lib c = set_cursor lib [] c"

text \<open>Lines 46-123: the load listener.\<close>

definition load_listener :: "library \<Rightarrow> component \<Rightarrow> outcome" where
  "load_listener lib c =
     (let c0 = c\<lparr>console := console c @ [Console_log ''Map loaded successfully'']\<rparr>
      in if map_current c0 = None then Inr c0
         else
           and_then (on_map lib (\<lambda>h. Map_addSource h ''basketball-courts'' (typedBasketballCourts c0)) c0) (\<lambda>c1.
           and_then (on_map lib (\<lambda>h. Map_addLayer h circle_layer) c1) (\<lambda>c2.
           and_then (on_map lib (\<lambda>h. Map_addLayer h label_layer) c2) (\<lambda>c3.
           and_then (on_map lib (\<lambda>h. Map_on h ''click'' (Some ''basketball-courts-layer'') Click_listener) c3) (\<lambda>c4.
           and_then (on_map lib (\<lambda>h. Map_on h ''mouseenter'' (Some ''basketball-courts-layer'') Mouseenter_listener) c4) (\<lambda>c5.
           on_map lib (\<lambda>h. Map_on h ''mouseleave'' (Some ''basketball-courts-layer'') Mouseleave_listener) c5))))))"

text \<open>Lines 125-128: the error listener; \<open>e\<close> is the event's payload.\<close>

definition error_listener :: "js_exn \<Rightarrow> component \<Rightarrow> outcome" where
  "error_listener e c =
     Inr (c\<lparr>console := console c @ [Console_error ''Map error:'' e],
            mapError := Some ''Error loading map''\<rparr>)"

subsection \<open>The initialisation effect and its cleanup\<close>

text \<open>Lines 39-44: the constructor; the ref is assigned only when it returns. The new
  instance is named by its position in the trace.\<close>

definition options :: "element \<Rightarrow> map_options" where
  "options d =
     \<lparr>container = d, style = ''mapbox://styles/mapbox/streets-v12'',
      center = [139.7014, 35.6648], zoom = 13\<rparr>"

definition new_Map :: "library \<Rightarrow> element \<Rightarrow> component \<Rightarrow> outcome" where
  "new_Map lib d c =
     and_then (invoke lib (New_Map (options d)) c)
       (\<lambda>c1. Inr (c1\<lparr>map_current := Some (length (calls c))\<rparr>))"

text \<open>Lines 39-131: the body of the \<open>try\<close>. In the last statement the receiver
  \<open>map.current\<close> is read before the control is constructed.\<close>

definition try_body :: "library \<Rightarrow> element \<Rightarrow> component \<Rightarrow> outcome" where
  "try_body lib d c =
     and_then (new_Map lib d c) (\<lambda>c1.
     and_then (on_map lib (\<lambda>h. Map_on h ''load'' None Load_listener) c1) (\<lambda>c2.
     and_then (on_map lib (\<lambda>h. Map_on h ''error'' None Error_listener) c2) (\<lambda>c3.
     (case map_current c3 of
        None \<Rightarrow> Inl (TypeError, c3)
      | Some h \<Rightarrow>
          and_then (invoke lib New_NavigationControl c3) (\<lambda>c4.
          invoke lib (Map_addControl h ''top-right'') c4)))))"

text \<open>Lines 133-136: the \<open>catch\<close>.\<close>

definition catch_body :: "js_exn \<Rightarrow> component \<Rightarrow> component" where
  "catch_body x c =
     c\<lparr>console := console c @ [Console_error ''Error initializing map:'' x],
       mapError := Some ''Failed to initialize map''\<rparr>"

text \<open>Lines 28-145: the effect. \<open>token\<close> is \<open>mapboxgl.accessToken\<close>. The result is the new
  state and whether a cleanup function is returned to React (the three early \<open>return\<close>s
  return none).\<close>

definition useEffect_body ::
  "library \<Rightarrow> string \<Rightarrow> component \<Rightarrow> (js_exn \<times> component) + (component \<times> bool)" where
  "useEffect_body lib token c =
     (if map_current c \<noteq> None then Inr (c, False)
      else case mapContainer_current c of
        None \<Rightarrow> Inr (c, False)
      | Some d \<Rightarrow>
          if token = [] then
            Inr (c\<lparr>mapError :=
                     Some ''Mapbox access token is missing. Please check your environment variables.''\<rparr>,
                 False)
          else
            (case try_body lib d c of
               Inr c1 \<Rightarrow> Inr (c1, True)
             | Inl (x, c1) \<Rightarrow> Inr (catch_body x c1, True)))"

text \<open>Lines 139-144: the cleanup.\<close>

definition cleanup :: "library \<Rightarrow> component \<Rightarrow> outcome" where
  "cleanup lib c =
     (case map_current c of
        None \<Rightarrow> Inr c
      | Some h \<Rightarrow>
          and_then (invoke lib (Map_remove h) c) (\<lambda>c1. Inr (c1\<lparr>map_current := None\<rparr>)))"

text \<open>Mounting: the module is initialised, the component rendered (which attaches the
  container), then the effect runs. Unmounting runs the cleanup, if the effect returned one.\<close>

definition mount ::
  "library \<Rightarrow> string option \<Rightarrow> element \<Rightarrow> feature list \<Rightarrow> real list list
     \<Rightarrow> (js_exn \<times> component) + (component \<times> bool)" where
  "mount lib env d courts store =
     useEffect_body lib (accessToken env) (attach d (initial courts store))"

definition unmount :: "library \<Rightarrow> component \<times> bool \<Rightarrow> outcome" where
  "unmount lib m = (if snd m then cleanup lib (fst m) else Inr (fst m))"

text \<open>What an effect left behind: the state, and whether there is a cleanup to run.\<close>

definition returned :: "(js_exn \<times> component) + (component \<times> bool) \<Rightarrow> component \<times> bool" where
  "returned r = (case r of Inl (x, c) \<Rightarrow> (c, False) | Inr m \<Rightarrow> m)"

subsection \<open>Decimal numerals\<close>

text \<open>What it is for a string to be the decimal numeral of a natural number, said without
  reference to how the component renders one: the string is a non-empty sequence of
  digits, has no leading zero unless it is \<open>0\<close>, and its value in base ten is the number.\<close>

definition is_digit :: "char \<Rightarrow> bool" where
  "is_digit ch = (ch \<in> set ''0123456789'')"

definition digit_value :: "char \<Rightarrow> nat" where
  "digit_value ch = of_char ch - 48"

definition numeral_value :: "string \<Rightarrow> nat" where
  "numeral_value ds = foldl (\<lambda>a ch. 10 * a + digit_value ch) 0 ds"

definition decimal_numeral :: "string \<Rightarrow> nat \<Rightarrow> bool" where
  "decimal_numeral ds n =
     (ds \<noteq> [] \<and> list_all is_digit ds
      \<and> (if hd ds = CHR ''0'' then ds = ''0'' else True) \<and> numeral_value ds = n)"

subsection \<open>Counting in the trace\<close>

definition is_New_Map :: "call \<Rightarrow> bool" where
  "is_New_Map k = (case k of New_Map opts \<Rightarrow> True | _ \<Rightarrow> False)"

definition is_Map_remove :: "call \<Rightarrow> bool" where
  "is_Map_remove k = (case k of Map_remove h \<Rightarrow> True | _ \<Rightarrow> False)"

definition is_Map_addSource :: "call \<Rightarrow> bool" where
  "is_Map_addSource k = (case k of Map_addSource h n fc \<Rightarrow> True | _ \<Rightarrow> False)"

definition is_Map_addLayer :: "call \<Rightarrow> bool" where
  "is_Map_addLayer k = (case k of Map_addLayer h l \<Rightarrow> True | _ \<Rightarrow> False)"

definition is_popup_call :: "call \<Rightarrow> bool" where
  "is_popup_call k =
     (case k of New_Popup \<Rightarrow> True | Popup_setLngLat a \<Rightarrow> True | Popup_setHTML s \<Rightarrow> True
      | Popup_addTo h \<Rightarrow> True | _ \<Rightarrow> False)"

definition count_calls :: "(call \<Rightarrow> bool) \<Rightarrow> component \<Rightarrow> nat" where
  "count_calls p c = length (filter p (calls c))"

subsection \<open>Concrete libraries and states\<close>

text \<open>A library none of whose calls throws, one whose map constructor throws (no WebGL),
  and one that refuses controls.\<close>

definition quiet :: library where
  "quiet tr k = None"

definition no_webgl :: library where
  "no_webgl tr k = (case k of New_Map opts \<Rightarrow> Some (Thrown ''WebGL'') | _ \<Rightarrow> None)"

definition no_controls :: library where
  "no_controls tr k = (case k of Map_addControl h p \<Rightarrow> Some (Thrown ''control'') | _ \<Rightarrow> None)"

text \<open>One court, and the component after a mount and the load event, with a library that
  never throws.\<close>

definition court_A :: feature where
  "court_A =
     \<lparr>properties =
        \<lparr>id_str = ''court-a'', name = ''Court A'', description = ''Nice court'',
         courtType = ''outdoor'', hoops = Integer False 2, surface = ''asphalt''\<rparr>,
      geometry_coordinates = 0\<rparr>"

definition live :: component where
  "live =
     final_state (load_listener quiet
       (fst (returned (mount quiet (Some ''pk.token'') 7 [court_A] [[139.7, 35.66]]))))"

section \<open>Properties\<close>

subsection \<open>Basic facts\<close>

lemma and_then_Inl [simp]: "and_then (Inl e) f = Inl e"
  by (simp add: and_then_def)

lemma and_then_Inr [simp]: "and_then (Inr c) f = f c"
  by (simp add: and_then_def)

lemma final_state_simps [simp]:
  "final_state (Inl (x, c)) = c" "final_state (Inr c) = c"
  by (simp_all add: final_state_def)

lemma returned_simps [simp]:
  "returned (Inl (x, c)) = (c, False)" "returned (Inr m) = m"
  by (simp_all add: returned_def)

lemma is_New_Map_simps [simp]:
  "is_New_Map (New_Map opts)" "\<not> is_New_Map (Map_on h ev ly l)"
  "\<not> is_New_Map New_NavigationControl" "\<not> is_New_Map (Map_addControl h p)"
  by (simp_all add: is_New_Map_def)

lemma is_overlay_simps [simp]:
  "is_Map_addSource (Map_addSource h n fc)" "\<not> is_Map_addSource (New_Map opts)"
  "\<not> is_Map_addSource (Map_on h ev ly l)" "\<not> is_Map_addSource New_NavigationControl"
  "\<not> is_Map_addSource (Map_addControl h p)" "\<not> is_Map_addSource (Map_addLayer h la)"
  "is_Map_addLayer (Map_addLayer h la)" "\<not> is_Map_addLayer (New_Map opts)"
  "\<not> is_Map_addLayer (Map_on h ev ly l)" "\<not> is_Map_addLayer New_NavigationControl"
  "\<not> is_Map_addLayer (Map_addControl h p)" "\<not> is_Map_addLayer (Map_addSource h n fc)"
  by (simp_all add: is_Map_addSource_def is_Map_addLayer_def)

lemma is_Map_remove_simps [simp]:
  "is_Map_remove (Map_remove h)" "\<not> is_Map_remove (New_Map opts)"
  "\<not> is_Map_remove (Map_on h ev ly l)" "\<not> is_Map_remove New_NavigationControl"
  "\<not> is_Map_remove (Map_addControl h p)"
  by (simp_all add: is_Map_remove_def)

lemma is_popup_call_simps [simp]:
  "is_popup_call New_Popup" "is_popup_call (Popup_setLngLat a)" "is_popup_call (Popup_setHTML s)"
  "is_popup_call (Popup_addTo ho)"
  by (simp_all add: is_popup_call_def)

subsection \<open>The effect, case by case\<close>

lemma effect_live:
  "map_current c \<noteq> None \<Longrightarrow> useEffect_body lib token c = Inr (c, False)"
  by (simp add: useEffect_body_def)

lemma effect_missing_token:
  "map_current c = None \<Longrightarrow> mapContainer_current c = Some d \<Longrightarrow>
   useEffect_body lib [] c =
     Inr (c\<lparr>mapError :=
              Some ''Mapbox access token is missing. Please check your environment variables.''\<rparr>,
          False)"
  by (simp add: useEffect_body_def)

lemma effect_try:
  "map_current c = None \<Longrightarrow> mapContainer_current c = Some d \<Longrightarrow> token \<noteq> [] \<Longrightarrow>
   useEffect_body lib token c =
     (case try_body lib d c of
        Inr c1 \<Rightarrow> Inr (c1, True)
      | Inl (x, c1) \<Rightarrow> Inr (catch_body x c1, True))"
  by (simp add: useEffect_body_def)

text \<open>What the \<open>try\<close> body leaves in the trace and in the refs, whether it throws or not.\<close>

lemma try_body_New_Map:
  "filter is_New_Map (calls (final_state (try_body lib d c))) =
     filter is_New_Map (calls c) @ [New_Map (options d)]"
  by (simp add: try_body_def new_Map_def on_map_def invoke_def Let_def and_then_def
           split: option.splits sum.splits)

lemma try_body_handle:
  "lib (calls c) (New_Map (options d)) = None \<Longrightarrow>
   map_current (final_state (try_body lib d c)) = Some (length (calls c))"
  by (simp add: try_body_def new_Map_def on_map_def invoke_def Let_def and_then_def
           split: option.splits sum.splits)

lemma try_body_no_overlay:
  "filter is_Map_addSource (calls (final_state (try_body lib d c))) =
     filter is_Map_addSource (calls c)"
  "filter is_Map_addLayer (calls (final_state (try_body lib d c))) =
     filter is_Map_addLayer (calls c)"
  by (simp_all add: try_body_def new_Map_def on_map_def invoke_def Let_def and_then_def
           split: option.splits sum.splits)

lemma try_body_no_remove:
  "filter is_Map_remove (calls (final_state (try_body lib d c))) = filter is_Map_remove (calls c)"
  by (simp add: try_body_def new_Map_def on_map_def invoke_def Let_def and_then_def
           split: option.splits sum.splits)

lemma try_body_courts:
  "typedBasketballCourts (final_state (try_body lib d c)) = typedBasketballCourts c"
  by (simp add: try_body_def new_Map_def on_map_def invoke_def Let_def and_then_def
           split: option.splits sum.splits)

text \<open>Mounting with a credential.\<close>

lemma mount_try:
  "t \<noteq> [] \<Longrightarrow>
   mount lib (Some t) d courts store =
     (case try_body lib d (attach d (initial courts store)) of
        Inr c1 \<Rightarrow> Inr (c1, True)
      | Inl (x, c1) \<Rightarrow> Inr (catch_body x c1, True))"
  unfolding mount_def
  by (subst effect_try [where d = d]) (simp_all add: accessToken_def attach_def initial_def)

lemma mount_calls:
  "t \<noteq> [] \<Longrightarrow>
   calls (fst (returned (mount lib (Some t) d courts store))) =
     calls (final_state (try_body lib d (attach d (initial courts store))))"
  by (simp add: mount_try catch_body_def split: sum.splits)

lemma mount_handle:
  "t \<noteq> [] \<Longrightarrow> lib [] (New_Map (options d)) = None \<Longrightarrow>
   map_current (fst (returned (mount lib (Some t) d courts store))) = Some 0"
  using try_body_handle [of lib "attach d (initial courts store)" d]
  by (auto simp: mount_try catch_body_def attach_def initial_def split: sum.splits)

lemma mount_cleanup:
  "t \<noteq> [] \<Longrightarrow> snd (returned (mount lib (Some t) d courts store))"
  by (simp add: mount_try split: sum.splits)

lemma mount_courts:
  "t \<noteq> [] \<Longrightarrow>
   typedBasketballCourts (fst (returned (mount lib (Some t) d courts store))) = courts"
  using try_body_courts [of lib d "attach d (initial courts store)"]
  by (auto simp: mount_try catch_body_def attach_def initial_def split: sum.splits)

text \<open>The state \<open>live\<close>, computed.\<close>

lemma live_eq:
  "live =
     \<lparr>map_current = Some 0, mapContainer_current = Some 7, mapError = None,
      typedBasketballCourts = [court_A], arrays = [[139.7, 35.66]],
      calls =
        [New_Map (options 7), Map_on 0 ''load'' None Load_listener,
         Map_on 0 ''error'' None Error_listener, New_NavigationControl,
         Map_addControl 0 ''top-right'',
         Map_addSource 0 ''basketball-courts'' [court_A],
         Map_addLayer 0 circle_layer, Map_addLayer 0 label_layer,
         Map_on 0 ''click'' (Some ''basketball-courts-layer'') Click_listener,
         Map_on 0 ''mouseenter'' (Some ''basketball-courts-layer'') Mouseenter_listener,
         Map_on 0 ''mouseleave'' (Some ''basketball-courts-layer'') Mouseleave_listener],
      console = [Console_log ''Map loaded successfully''], canvas_cursor = []\<rparr>"
  by (simp add: live_def mount_def accessToken_def attach_def initial_def useEffect_body_def
        try_body_def new_Map_def load_listener_def on_map_def invoke_def quiet_def)

lemma live_simps:
  "map_current live = Some 0" "arrays live = [[139.7, 35.66]]"
  "typedBasketballCourts live = [court_A]" "length (calls live) = 11"
  by (simp_all add: live_eq)

subsection \<open>Missing credential\<close>

text \<open>
  C1. When the access token is absent (the environment variable is undefined or empty) at
  the first mount, the effect stores exactly the message "Mapbox access token is missing.
  Please check your environment variables." in \<open>mapError\<close>, so the banner shows it (the
  ErrorDisplayed state); it returns no cleanup; the trace of library calls stays empty, so
  the map constructor is never invoked, and \<open>map.current\<close> stays \<open>null\<close>. This holds
  whatever the library would have done.
\<close>

theorem missing_credential:
  assumes "env = None \<or> env = Some []"
  shows "mount lib env d courts store =
           Inr ((attach d (initial courts store))
                  \<lparr>mapError :=
                     Some ''Mapbox access token is missing. Please check your environment variables.''\<rparr>,
                False)
       \<and> mapError (fst (returned (mount lib env d courts store))) =
           Some ''Mapbox access token is missing. Please check your environment variables.''
       \<and> banner (fst (returned (mount lib env d courts store))) =
           Some ''Mapbox access token is missing. Please check your environment variables.''
       \<and> calls (fst (returned (mount lib env d courts store))) = []
       \<and> count_calls is_New_Map (fst (returned (mount lib env d courts store))) = 0
       \<and> map_current (fst (returned (mount lib env d courts store))) = None"
proof -
  have tok: "accessToken env = []"
    using assms by (auto simp: accessToken_def)
  have m: "mount lib env d courts store =
           Inr ((attach d (initial courts store))
                  \<lparr>mapError :=
                     Some ''Mapbox access token is missing. Please check your environment variables.''\<rparr>,
                False)"
    unfolding mount_def tok
    by (rule effect_missing_token) (simp_all add: attach_def initial_def)
  show ?thesis
    unfolding m by (simp add: banner_def count_calls_def attach_def initial_def)
qed

theorem missing_credential_witness:
  "mount quiet None 7 [] [] =
           Inr ((attach 7 (initial [] []))
                  \<lparr>mapError :=
                     Some ''Mapbox access token is missing. Please check your environment variables.''\<rparr>,
                False)
       \<and> mapError (fst (returned (mount quiet None 7 [] []))) =
           Some ''Mapbox access token is missing. Please check your environment variables.''
       \<and> banner (fst (returned (mount quiet None 7 [] []))) =
           Some ''Mapbox access token is missing. Please check your environment variables.''
       \<and> calls (fst (returned (mount quiet None 7 [] []))) = []
       \<and> count_calls is_New_Map (fst (returned (mount quiet None 7 [] []))) = 0
       \<and> map_current (fst (returned (mount quiet None 7 [] []))) = None"
  by (rule missing_credential) simp

subsection \<open>Create once\<close>

text \<open>
  C2. A mount with a non-empty token whose constructor call returns invokes the map
  constructor exactly once and leaves the new instance in \<open>map.current\<close>, whatever the later
  calls of the effect do. Running the effect again on a state whose handle is live, in
  particular on the state the mount left, returns at once: the state, trace included, is
  unchanged, and no cleanup is returned.
\<close>

theorem create_once:
  assumes "t \<noteq> []" and "lib [] (New_Map (options d)) = None"
  shows "count_calls is_New_Map (fst (returned (mount lib (Some t) d courts store))) = 1
       \<and> map_current (fst (returned (mount lib (Some t) d courts store))) = Some 0
       \<and> (\<forall>lib' token'.
            useEffect_body lib' token' (fst (returned (mount lib (Some t) d courts store))) =
              Inr (fst (returned (mount lib (Some t) d courts store)), False))
       \<and> (\<forall>c lib' token'.
            map_current c \<noteq> None \<longrightarrow> useEffect_body lib' token' c = Inr (c, False))"
proof -
  let ?c = "fst (returned (mount lib (Some t) d courts store))"
  have n: "count_calls is_New_Map ?c = 1"
    using assms(1)
    by (simp add: count_calls_def mount_calls try_body_New_Map attach_def initial_def)
  have h: "map_current ?c = Some 0"
    using assms by (rule mount_handle)
  have again: "useEffect_body lib' token' ?c = Inr (?c, False)" for lib' token'
    by (rule effect_live) (simp add: h)
  show ?thesis
    using n h again effect_live by blast
qed

theorem create_once_witness:
  "count_calls is_New_Map (fst (returned (mount quiet (Some ''pk.token'') 7 [] []))) = 1
   \<and> map_current (fst (returned (mount quiet (Some ''pk.token'') 7 [] []))) = Some 0
   \<and> useEffect_body quiet ''pk.token'' (fst (returned (mount quiet (Some ''pk.token'') 7 [] []))) =
       Inr (fst (returned (mount quiet (Some ''pk.token'') 7 [] [])), False)"
proof -
  have a: "''pk.token'' \<noteq> []" by simp
  have b: "quiet [] (New_Map (options 7)) = None" by (simp add: quiet_def)
  show ?thesis
    using a b create_once [of "''pk.token''" quiet 7 "[]" "[]"] by blast
qed

subsection \<open>The overlay\<close>

lemma load_overlay:
  assumes "map_current c = Some h"
    and "\<forall>tr h n fc. lib tr (Map_addSource h n fc) = None"
    and "\<forall>tr h l. lib tr (Map_addLayer h l) = None"
  shows "filter is_Map_addSource (calls (final_state (load_listener lib c))) =
           filter is_Map_addSource (calls c) @
           [Map_addSource h ''basketball-courts'' (typedBasketballCourts c)]"
    and "filter is_Map_addLayer (calls (final_state (load_listener lib c))) =
           filter is_Map_addLayer (calls c) @
           [Map_addLayer h circle_layer, Map_addLayer h label_layer]"
  using assms
  by (simp_all add: load_listener_def on_map_def invoke_def Let_def and_then_def
           split: option.splits sum.splits)

text \<open>
  C3. After a mount that created the widget, when the load listener runs and the library
  accepts the source and the layers, the trace holds exactly one \<open>addSource\<close>, of the court
  collection under the name "basketball-courts", and exactly two \<open>addLayer\<close>, both on that
  source: first the circle layer "basketball-courts-layer", of type "circle", with radius 8,
  color "#FF5733", stroke width 2 and stroke color "#ffffff"; then the label layer
  "court-labels", of type "symbol", whose text is each feature's \<open>name\<close>, with its font,
  offset, anchor, color and halo.
\<close>

theorem overlay_registered_once:
  assumes "t \<noteq> []" and "lib [] (New_Map (options d)) = None"
    and "\<forall>tr h n fc. lib tr (Map_addSource h n fc) = None"
    and "\<forall>tr h l. lib tr (Map_addLayer h l) = None"
  shows "filter is_Map_addSource
           (calls (final_state (load_listener lib (fst (returned (mount lib (Some t) d courts store)))))) =
           [Map_addSource 0 ''basketball-courts'' courts]
       \<and> filter is_Map_addLayer
           (calls (final_state (load_listener lib (fst (returned (mount lib (Some t) d courts store)))))) =
           [Map_addLayer 0
              \<lparr>layer_id = ''basketball-courts-layer'', layer_type = ''circle'',
               layer_source = ''basketball-courts'', layout = [],
               paint = [(''circle-radius'', JNum 8), (''circle-color'', JStr ''#FF5733''),
                        (''circle-stroke-width'', JNum 2),
                        (''circle-stroke-color'', JStr ''#ffffff'')]\<rparr>,
            Map_addLayer 0
              \<lparr>layer_id = ''court-labels'', layer_type = ''symbol'',
               layer_source = ''basketball-courts'',
               layout = [(''text-field'', JArr [JStr ''get'', JStr ''name'']),
                         (''text-font'', JArr [JStr ''Open Sans Regular'']),
                         (''text-offset'', JArr [JNum 0, JNum 1.5]),
                         (''text-anchor'', JStr ''top'')],
               paint = [(''text-color'', JStr ''#333''), (''text-halo-color'', JStr ''#fff''),
                        (''text-halo-width'', JNum 1)]\<rparr>]
       \<and> count_calls is_Map_addSource
           (final_state (load_listener lib (fst (returned (mount lib (Some t) d courts store))))) = 1
       \<and> count_calls is_Map_addLayer
           (final_state (load_listener lib (fst (returned (mount lib (Some t) d courts store))))) = 2
       \<and> layer_id circle_layer = ''basketball-courts-layer''
       \<and> layer_type circle_layer = ''circle''
       \<and> layer_source circle_layer = ''basketball-courts''
       \<and> map_of (paint circle_layer) ''circle-color'' = Some (JStr ''#FF5733'')
       \<and> map_of (paint circle_layer) ''circle-stroke-width'' = Some (JNum 2)
       \<and> layer_id label_layer = ''court-labels''
       \<and> layer_type label_layer = ''symbol''
       \<and> layer_source label_layer = ''basketball-courts''
       \<and> map_of (layout label_layer) ''text-field'' = Some (JArr [JStr ''get'', JStr ''name''])"
proof -
  let ?c = "fst (returned (mount lib (Some t) d courts store))"
  have h: "map_current ?c = Some 0"
    using assms(1,2) by (rule mount_handle)
  have courts: "typedBasketballCourts ?c = courts"
    using assms(1) by (rule mount_courts)
  have none: "filter is_Map_addSource (calls ?c) = []" "filter is_Map_addLayer (calls ?c) = []"
    using assms(1) by (simp_all add: mount_calls try_body_no_overlay attach_def initial_def)
  have src: "filter is_Map_addSource (calls (final_state (load_listener lib ?c))) =
               [Map_addSource 0 ''basketball-courts'' courts]"
    using load_overlay(1) [OF h assms(3,4)] by (simp add: none courts)
  have lay: "filter is_Map_addLayer (calls (final_state (load_listener lib ?c))) =
               [Map_addLayer 0 circle_layer, Map_addLayer 0 label_layer]"
    using load_overlay(2) [OF h assms(3,4)] by (simp add: none)
  have look: "layer_id circle_layer = ''basketball-courts-layer''
       \<and> layer_type circle_layer = ''circle''
       \<and> layer_source circle_layer = ''basketball-courts''
       \<and> map_of (paint circle_layer) ''circle-color'' = Some (JStr ''#FF5733'')
       \<and> map_of (paint circle_layer) ''circle-stroke-width'' = Some (JNum 2)
       \<and> layer_id label_layer = ''court-labels''
       \<and> layer_type label_layer = ''symbol''
       \<and> layer_source label_layer = ''basketball-courts''
       \<and> map_of (layout label_layer) ''text-field'' = Some (JArr [JStr ''get'', JStr ''name''])"
    by (simp add: circle_layer_def label_layer_def)
  have lay': "filter is_Map_addLayer (calls (final_state (load_listener lib ?c))) =
           [Map_addLayer 0
              \<lparr>layer_id = ''basketball-courts-layer'', layer_type = ''circle'',
               layer_source = ''basketball-courts'', layout = [],
               paint = [(''circle-radius'', JNum 8), (''circle-color'', JStr ''#FF5733''),
                        (''circle-stroke-width'', JNum 2),
                        (''circle-stroke-color'', JStr ''#ffffff'')]\<rparr>,
            Map_addLayer 0
              \<lparr>layer_id = ''court-labels'', layer_type = ''symbol'',
               layer_source = ''basketball-courts'',
               layout = [(''text-field'', JArr [JStr ''get'', JStr ''name'']),
                         (''text-font'', JArr [JStr ''Open Sans Regular'']),
                         (''text-offset'', JArr [JNum 0, JNum 1.5]),
                         (''text-anchor'', JStr ''top'')],
               paint = [(''text-color'', JStr ''#333''), (''text-halo-color'', JStr ''#fff''),
                        (''text-halo-width'', JNum 1)]\<rparr>]"
    unfolding lay by (simp add: circle_layer_def label_layer_def)
  have cnt: "count_calls is_Map_addSource (final_state (load_listener lib ?c)) = 1"
    "count_calls is_Map_addLayer (final_state (load_listener lib ?c)) = 2"
    by (simp_all add: count_calls_def src lay)
  show ?thesis
    using src lay' cnt look by blast
qed

theorem overlay_registered_once_witness:
  "filter is_Map_addSource
           (calls (final_state (load_listener quiet (fst (returned (mount quiet (Some ''pk.token'') 7 [court_A] [])))))) =
           [Map_addSource 0 ''basketball-courts'' [court_A]]
       \<and> filter is_Map_addLayer
           (calls (final_state (load_listener quiet (fst (returned (mount quiet (Some ''pk.token'') 7 [court_A] [])))))) =
           [Map_addLayer 0
              \<lparr>layer_id = ''basketball-courts-layer'', layer_type = ''circle'',
               layer_source = ''basketball-courts'', layout = [],
               paint = [(''circle-radius'', JNum 8), (''circle-color'', JStr ''#FF5733''),
                        (''circle-stroke-width'', JNum 2),
                        (''circle-stroke-color'', JStr ''#ffffff'')]\<rparr>,
            Map_addLayer 0
              \<lparr>layer_id = ''court-labels'', layer_type = ''symbol'',
               layer_source = ''basketball-courts'',
               layout = [(''text-field'', JArr [JStr ''get'', JStr ''name'']),
                         (''text-font'', JArr [JStr ''Open Sans Regular'']),
                         (''text-offset'', JArr [JNum 0, JNum 1.5]),
                         (''text-anchor'', JStr ''top'')],
               paint = [(''text-color'', JStr ''#333''), (''text-halo-color'', JStr ''#fff''),
                        (''text-halo-width'', JNum 1)]\<rparr>]
       \<and> count_calls is_Map_addSource
           (final_state (load_listener quiet (fst (returned (mount quiet (Some ''pk.token'') 7 [court_A] []))))) = 1
       \<and> count_calls is_Map_addLayer
           (final_state (load_listener quiet (fst (returned (mount quiet (Some ''pk.token'') 7 [court_A] []))))) = 2"
proof -
  have a: "''pk.token'' \<noteq> []" by simp
  have b: "quiet [] (New_Map (options 7)) = None" by (simp add: quiet_def)
  have c: "\<forall>tr h n fc. quiet tr (Map_addSource h n fc) = None" by (simp add: quiet_def)
  have d: "\<forall>tr h l. quiet tr (Map_addLayer h l) = None" by (simp add: quiet_def)
  show ?thesis
    using a b c d overlay_registered_once [of "''pk.token''" quiet 7 "[court_A]" "[]"] by blast
qed

subsection \<open>The click listener\<close>

lemma popupContent_contains:
  "sublist (name props) (popupContent props)"
  "sublist (description props) (popupContent props)"
  "sublist (courtType props) (popupContent props)"
  "sublist (number_toString (hoops props)) (popupContent props)"
  "sublist (surface props) (popupContent props)"
  unfolding popupContent_def
  by (simp_all only: sublist_append sublist_order.order_refl simp_thms)

text \<open>The digits the component produces are the decimal numeral.\<close>

lemma less_10_cases:
  "k < 10 \<Longrightarrow>
   k = 0 \<or> k = 1 \<or> k = 2 \<or> k = 3 \<or> k = 4 \<or> k = 5 \<or> k = 6 \<or> k = 7 \<or> k = 8 \<or> k = (9::nat)"
  by arith

lemma digit_nth:
  assumes "k < 10"
  shows "digit_value (''0123456789'' ! k) = k" and "is_digit (''0123456789'' ! k)"
    and "(''0123456789'' ! k = CHR ''0'') = (k = 0)"
  using less_10_cases [OF assms] by (auto simp: digit_value_def is_digit_def)

lemma numeral_value_snoc: "numeral_value (ds @ [ch]) = 10 * numeral_value ds + digit_value ch"
  by (simp add: numeral_value_def)

lemma digits10_less: "n < 10 \<Longrightarrow> digits10 n = [''0123456789'' ! n]"
  by (subst digits10.simps) simp

lemma digits10_more:
  "\<not> n < 10 \<Longrightarrow> digits10 n = digits10 (n div 10) @ [''0123456789'' ! (n mod 10)]"
  by (subst digits10.simps) simp

lemma digits10_nonempty: "digits10 n \<noteq> []"
  by (subst digits10.simps) simp

lemma digits10_digits: "list_all is_digit (digits10 n)"
proof (induction n rule: digits10.induct)
  case (1 n)
  show ?case
  proof (cases "n < 10")
    case True
    then show ?thesis
      by (simp add: digits10_less digit_nth(2))
  next
    case False
    have "n mod 10 < 10" by simp
    with False 1 show ?thesis
      by (simp add: digits10_more digit_nth(2))
  qed
qed

lemma digits10_value: "numeral_value (digits10 n) = n"
proof (induction n rule: digits10.induct)
  case (1 n)
  show ?case
  proof (cases "n < 10")
    case True
    then show ?thesis
      using numeral_value_snoc [of "[]" "''0123456789'' ! n"] digit_nth(1) [OF True]
      by (simp add: digits10_less numeral_value_def)
  next
    case False
    have m: "digit_value (''0123456789'' ! (n mod 10)) = n mod 10"
      by (rule digit_nth(1)) simp
    show ?thesis
      unfolding digits10_more [OF False] numeral_value_snoc m using 1 [OF False] by simp
  qed
qed

lemma digits10_leading: "0 < n \<Longrightarrow> hd (digits10 n) \<noteq> CHR ''0''"
proof (induction n rule: digits10.induct)
  case (1 n)
  show ?case
  proof (cases "n < 10")
    case True
    with "1.prems" digit_nth(3) [OF True] show ?thesis
      by (simp only: digits10_less list.sel)
  next
    case False
    then have "0 < n div 10" by simp
    with 1 False have "hd (digits10 (n div 10)) \<noteq> CHR ''0''" by simp
    then show ?thesis
      by (simp add: digits10_more [OF False] digits10_nonempty)
  qed
qed

lemma digits10_decimal: "decimal_numeral (digits10 n) n"
proof -
  have "digits10 n = ''0''" if "hd (digits10 n) = CHR ''0''"
  proof -
    from that digits10_leading [of n] have "n = 0" by auto
    then show ?thesis by (simp add: digits10_less)
  qed
  then show ?thesis
    by (simp add: decimal_numeral_def digits10_nonempty digits10_digits digits10_value)
qed

text \<open>A string has at most one reading as a decimal numeral, and a number at most one
  decimal numeral.\<close>

lemma is_digit_nth: "is_digit ch \<Longrightarrow> digit_value ch < 10 \<and> ''0123456789'' ! digit_value ch = ch"
  by (auto simp: is_digit_def digit_value_def)

lemma decimal_numeral_digits10: "decimal_numeral ds n \<Longrightarrow> ds = digits10 n"
proof (induction ds arbitrary: n rule: rev_induct)
  case Nil
  then show ?case by (simp add: decimal_numeral_def)
next
  case (snoc ch ds)
  from snoc.prems have dig: "is_digit ch" and all: "list_all is_digit ds"
    and val: "10 * numeral_value ds + digit_value ch = n"
    and lead: "hd (ds @ [ch]) = CHR ''0'' \<Longrightarrow> ds @ [ch] = ''0''"
    by (auto simp: decimal_numeral_def numeral_value_snoc split: if_splits)
  from is_digit_nth [OF dig] have lt: "digit_value ch < 10"
    and nth: "''0123456789'' ! digit_value ch = ch" by simp_all
  from val lt have md: "n mod 10 = digit_value ch" and dv: "n div 10 = numeral_value ds"
    by auto
  show ?case
  proof (cases "ds = []")
    case True
    with val have "n = digit_value ch" by (simp add: numeral_value_def)
    with lt nth True show ?thesis by (simp add: digits10_less)
  next
    case False
    with lead have nz: "hd ds \<noteq> CHR ''0''" by auto
    with False all dv have "decimal_numeral ds (n div 10)"
      by (simp add: decimal_numeral_def)
    then have ih: "ds = digits10 (n div 10)" by (rule snoc.IH)
    have "\<not> n < 10"
    proof
      assume "n < 10"
      then have "n div 10 = 0" by simp
      with ih have "ds = ''0''" by (simp add: digits10_less)
      with nz show False by simp
    qed
    then show ?thesis
      using ih md nth by (simp add: digits10_more)
  qed
qed

lemma number_toString_2: "number_toString (Integer False 2) = ''2''"
  by (simp add: number_toString_def digits10.simps)

text \<open>
  C4. A click that carries at least one feature, arriving while the widget is live, with
  the first feature's coordinate array holding \<open>(lng, lat)\<close> and the library's popup calls
  returning, opens one popup: the trace grows by \<open>new Popup()\<close>, \<open>setLngLat\<close> on a new
  array that holds \<open>(lng, lat)\<close>, \<open>setHTML\<close> with the body and \<open>addTo\<close> the live map. The
  body contains the feature's name, description, court type and surface, and the rendering
  of its hoop count. When the hoop count is an integer of magnitude below \<open>2^53\<close>, that
  rendering is the decimal numeral of the magnitude, the only string that is one, after a
  minus sign when the count is negative; for any other number it is what
  \<open>Number::toString\<close> gives.
\<close>

theorem click_opens_popup:
  assumes "map_current c = Some h"
    and "geometry_coordinates f < length (arrays c)"
    and "arrays c ! geometry_coordinates f = [lng, lat]"
    and "\<forall>tr k. is_popup_call k \<longrightarrow> lib tr k = None"
  shows "click_listener lib (Some (f # rest)) c =
           Inr (c\<lparr>arrays := arrays c @ [[lng, lat]],
                  calls := calls c @
                    [New_Popup, Popup_setLngLat (length (arrays c)),
                     Popup_setHTML (popupContent (properties f)), Popup_addTo (Some h)]\<rparr>)
       \<and> arrays (final_state (click_listener lib (Some (f # rest)) c)) ! length (arrays c) =
           [lng, lat]
       \<and> sublist (name (properties f)) (popupContent (properties f))
       \<and> sublist (description (properties f)) (popupContent (properties f))
       \<and> sublist (courtType (properties f)) (popupContent (properties f))
       \<and> sublist (surface (properties f)) (popupContent (properties f))
       \<and> sublist (number_toString (hoops (properties f))) (popupContent (properties f))
       \<and> (case hoops (properties f) of
            Integer negative m \<Rightarrow>
              (\<exists>ds. decimal_numeral ds (unat m)
                 \<and> (\<forall>es. decimal_numeral es (unat m) \<longrightarrow> es = ds)
                 \<and> sublist ((if negative \<and> m \<noteq> 0 then ''-'' else []) @ ds)
                       (popupContent (properties f)))
          | Other s \<Rightarrow> sublist s (popupContent (properties f)))"
proof -
  have run: "click_listener lib (Some (f # rest)) c =
           Inr (c\<lparr>arrays := arrays c @ [[lng, lat]],
                  calls := calls c @
                    [New_Popup, Popup_setLngLat (length (arrays c)),
                     Popup_setHTML (popupContent (properties f)), Popup_addTo (Some h)]\<rparr>)"
    using assms by (simp add: click_listener_def slice_array_def invoke_def Let_def)
  have num: "(case hoops (properties f) of
            Integer negative m \<Rightarrow>
              (\<exists>ds. decimal_numeral ds (unat m)
                 \<and> (\<forall>es. decimal_numeral es (unat m) \<longrightarrow> es = ds)
                 \<and> sublist ((if negative \<and> m \<noteq> 0 then ''-'' else []) @ ds)
                       (popupContent (properties f)))
          | Other s \<Rightarrow> sublist s (popupContent (properties f)))"
  proof (cases "hoops (properties f)")
    case (Integer negative m)
    have "sublist (number_toString (hoops (properties f))) (popupContent (properties f))"
      by (rule popupContent_contains)
    then have "sublist ((if negative \<and> m \<noteq> 0 then ''-'' else []) @ digits10 (unat m))
                 (popupContent (properties f))"
      by (simp only: Integer number_toString_def number.case)
    moreover have "decimal_numeral (digits10 (unat m)) (unat m)"
      by (rule digits10_decimal)
    moreover have "\<forall>es. decimal_numeral es (unat m) \<longrightarrow> es = digits10 (unat m)"
      by (simp add: decimal_numeral_digits10)
    ultimately show ?thesis
      unfolding Integer number.case by blast
  next
    case (Other s)
    have "sublist (number_toString (hoops (properties f))) (popupContent (properties f))"
      by (rule popupContent_contains)
    then show ?thesis
      by (simp add: Other number_toString_def)
  qed
  show ?thesis
    using num unfolding run by (simp add: popupContent_contains)
qed

theorem click_opens_popup_witness:
  "click_listener quiet (Some [court_A]) live =
           Inr (live\<lparr>arrays := [[139.7, 35.66], [139.7, 35.66]],
                  calls := calls live @
                    [New_Popup, Popup_setLngLat 1,
                     Popup_setHTML (popupContent (properties court_A)), Popup_addTo (Some 0)]\<rparr>)
       \<and> arrays (final_state (click_listener quiet (Some [court_A]) live)) ! 1 = [139.7, 35.66]
       \<and> sublist ''Court A'' (popupContent (properties court_A))
       \<and> sublist ''Nice court'' (popupContent (properties court_A))
       \<and> sublist ''outdoor'' (popupContent (properties court_A))
       \<and> sublist ''2'' (popupContent (properties court_A))
       \<and> sublist ''asphalt'' (popupContent (properties court_A))
       \<and> popupContent (properties court_A) =
        ''\<newline>                            <h3>Court A</h3>'' @
        ''\<newline>                            <p>Nice court</p>'' @
        ''\<newline>                            <ul>'' @
        ''\<newline>                                <li><strong>Type:</strong> outdoor</li>'' @
        ''\<newline>                                <li><strong>Hoops:</strong> 2</li>'' @
        ''\<newline>                                <li><strong>Surface:</strong> asphalt</li>'' @
        ''\<newline>                            </ul>'' @
        ''\<newline>                        ''"
proof -
  have a: "map_current live = Some 0" by (simp add: live_simps)
  have b: "geometry_coordinates court_A < length (arrays live)"
    by (simp add: live_simps court_A_def)
  have c: "arrays live ! geometry_coordinates court_A = [139.7, 35.66]"
    by (simp add: live_simps court_A_def)
  have d: "\<forall>tr k. is_popup_call k \<longrightarrow> quiet tr k = None" by (simp add: quiet_def)
  have e: "arrays live = [[139.7, 35.66]]"
    by (simp add: live_simps)
  have p: "name (properties court_A) = ''Court A''"
    "description (properties court_A) = ''Nice court''"
    "courtType (properties court_A) = ''outdoor''"
    "surface (properties court_A) = ''asphalt''"
    by (simp_all add: court_A_def)
  have q: "hoops (properties court_A) = Integer False 2" "unat (2 :: 53 word) = 2"
    by (simp_all add: court_A_def)
  have two: "decimal_numeral ''2'' 2"
    by (simp add: decimal_numeral_def is_digit_def numeral_value_def digit_value_def)
  note th = click_opens_popup [OF a b c d, of "[]"]
  from th have run: "click_listener quiet (Some [court_A]) live =
           Inr (live\<lparr>arrays := [[139.7, 35.66], [139.7, 35.66]],
                  calls := calls live @
                    [New_Popup, Popup_setLngLat 1,
                     Popup_setHTML (popupContent (properties court_A)), Popup_addTo (Some 0)]\<rparr>)"
    unfolding e by simp
  from th have at: "arrays (final_state (click_listener quiet (Some [court_A]) live)) ! 1 =
      [139.7, 35.66]"
    unfolding e by simp
  from th have strs: "sublist ''Court A'' (popupContent (properties court_A))"
    "sublist ''Nice court'' (popupContent (properties court_A))"
    "sublist ''outdoor'' (popupContent (properties court_A))"
    "sublist ''asphalt'' (popupContent (properties court_A))"
    unfolding p by blast+
  from th have "\<exists>ds. decimal_numeral ds 2 \<and> (\<forall>es. decimal_numeral es 2 \<longrightarrow> es = ds)
      \<and> sublist ds (popupContent (properties court_A))"
    unfolding q number.case by simp
  with two have n: "sublist ''2'' (popupContent (properties court_A))"
    by blast
  have body: "popupContent (properties court_A) =
        ''\<newline>                            <h3>Court A</h3>'' @
        ''\<newline>                            <p>Nice court</p>'' @
        ''\<newline>                            <ul>'' @
        ''\<newline>                                <li><strong>Type:</strong> outdoor</li>'' @
        ''\<newline>                                <li><strong>Hoops:</strong> 2</li>'' @
        ''\<newline>                                <li><strong>Surface:</strong> asphalt</li>'' @
        ''\<newline>                            </ul>'' @
        ''\<newline>                        ''"
    by (simp add: popupContent_def court_A_def number_toString_2)
  show ?thesis
    using run at strs n body by blast
qed

text \<open>
  C5. A click whose feature list is absent or empty, and any click that arrives when
  \<open>map.current\<close> is \<open>null\<close>, returns normally and leaves the whole state as it was: no
  library call is made, so no popup is created.
\<close>

theorem click_guard:
  assumes "fs = None \<or> fs = Some [] \<or> map_current c = None"
  shows "click_listener lib fs c = Inr c"
  using assms by (auto simp: click_listener_def split: option.splits list.splits)

theorem click_guard_witness:
  "click_listener quiet None live = Inr live
   \<and> click_listener quiet (Some []) live = Inr live
   \<and> click_listener quiet (Some [court_A]) (live\<lparr>map_current := None\<rparr>) =
       Inr (live\<lparr>map_current := None\<rparr>)"
  using click_guard [of None live quiet] click_guard [of "Some []" live quiet]
    click_guard [of "Some [court_A]" "live\<lparr>map_current := None\<rparr>" quiet]
  by simp

subsection \<open>Unmounting\<close>

lemma cleanup_live:
  "map_current c = Some h \<Longrightarrow> lib (calls c) (Map_remove h) = None \<Longrightarrow>
   cleanup lib c = Inr (c\<lparr>calls := calls c @ [Map_remove h], map_current := None\<rparr>)"
  by (simp add: cleanup_def invoke_def)

lemma cleanup_released:
  "map_current c = None \<Longrightarrow> cleanup lib c = Inr c"
  by (simp add: cleanup_def)

text \<open>
  C6. After a mount that created the widget, unmounting (with \<open>remove\<close> returning) invokes
  \<open>remove\<close> exactly once, on the instance created, returns normally and leaves
  \<open>map.current\<close> \<open>null\<close>. Running the cleanup a second time, against any library, returns
  normally with the state unchanged, so \<open>remove\<close> is not invoked again.
\<close>

theorem unmount_releases_once:
  assumes "t \<noteq> []" and "lib [] (New_Map (options d)) = None"
    and "\<forall>tr h. lib tr (Map_remove h) = None"
  shows "(\<exists>c'. unmount lib (returned (mount lib (Some t) d courts store)) = Inr c')
       \<and> filter is_Map_remove
           (calls (final_state (unmount lib (returned (mount lib (Some t) d courts store))))) =
           [Map_remove 0]
       \<and> count_calls is_Map_remove
           (final_state (unmount lib (returned (mount lib (Some t) d courts store)))) = 1
       \<and> map_current (final_state (unmount lib (returned (mount lib (Some t) d courts store)))) = None
       \<and> (\<forall>lib'. unmount lib'
             (final_state (unmount lib (returned (mount lib (Some t) d courts store))), True) =
             Inr (final_state (unmount lib (returned (mount lib (Some t) d courts store)))))"
proof -
  let ?m = "returned (mount lib (Some t) d courts store)"
  have h: "map_current (fst ?m) = Some 0"
    using assms(1,2) by (rule mount_handle)
  have cl: "snd ?m"
    using assms(1) by (rule mount_cleanup)
  have none: "filter is_Map_remove (calls (fst ?m)) = []"
    using assms(1) by (simp add: mount_calls try_body_no_remove attach_def initial_def)
  have u: "unmount lib ?m =
             Inr ((fst ?m)\<lparr>calls := calls (fst ?m) @ [Map_remove 0], map_current := None\<rparr>)"
    using cl assms(3) by (simp add: unmount_def cleanup_live [OF h])
  have again: "unmount lib' (final_state (unmount lib ?m), True) = Inr (final_state (unmount lib ?m))"
    for lib'
    unfolding u by (simp add: unmount_def cleanup_released)
  show ?thesis
    using again unfolding u by (simp add: none count_calls_def)
qed

theorem unmount_releases_once_witness:
  "(\<exists>c'. unmount quiet (returned (mount quiet (Some ''pk.token'') 7 [] [])) = Inr c')
       \<and> filter is_Map_remove
           (calls (final_state (unmount quiet (returned (mount quiet (Some ''pk.token'') 7 [] []))))) =
           [Map_remove 0]
       \<and> count_calls is_Map_remove
           (final_state (unmount quiet (returned (mount quiet (Some ''pk.token'') 7 [] [])))) = 1
       \<and> map_current (final_state (unmount quiet (returned (mount quiet (Some ''pk.token'') 7 [] [])))) = None
       \<and> unmount quiet
             (final_state (unmount quiet (returned (mount quiet (Some ''pk.token'') 7 [] []))), True) =
             Inr (final_state (unmount quiet (returned (mount quiet (Some ''pk.token'') 7 [] []))))"
proof -
  have a: "''pk.token'' \<noteq> []" by simp
  have b: "quiet [] (New_Map (options 7)) = None" by (simp add: quiet_def)
  have c: "\<forall>tr h. quiet tr (Map_remove h) = None" by (simp add: quiet_def)
  show ?thesis
    using a b c unmount_releases_once [of "''pk.token''" quiet 7 "[]" "[]"] by blast
qed

subsection \<open>Failures\<close>

lemma try_body_no_webgl:
  "try_body no_webgl 7 (attach 7 (initial [] [])) =
     Inl (Thrown ''WebGL'', (attach 7 (initial [] []))\<lparr>calls := [New_Map (options 7)]\<rparr>)"
  by (simp add: try_body_def new_Map_def invoke_def no_webgl_def attach_def initial_def)

lemma try_body_no_controls:
  "try_body no_controls 7 (attach 7 (initial [] [])) =
     Inl (Thrown ''control'',
          (attach 7 (initial [] []))
            \<lparr>map_current := Some 0,
             calls := [New_Map (options 7), Map_on 0 ''load'' None Load_listener,
                       Map_on 0 ''error'' None Error_listener, New_NavigationControl,
                       Map_addControl 0 ''top-right'']\<rparr>)"
  by (simp add: try_body_def new_Map_def on_map_def invoke_def no_controls_def attach_def
        initial_def)

text \<open>
  C7. The effect never throws: for every library, token and state it returns normally.
  Whenever a call of the \<open>try\<close> body (the constructor, a listener registration, the
  construction or registration of the navigation control) throws, the effect returns the
  state of the \<open>catch\<close>: the exception logged, \<open>mapError\<close> set to the generic message
  "Failed to initialize map", which the banner shows, and the cleanup returned.
\<close>

theorem initialisation_never_throws:
  "(\<exists>m. useEffect_body lib token c = Inr m)
   \<and> (\<forall>d x c1. map_current c = None \<and> mapContainer_current c = Some d \<and> token \<noteq> []
          \<and> try_body lib d c = Inl (x, c1) \<longrightarrow>
        useEffect_body lib token c = Inr (catch_body x c1, True)
        \<and> mapError (catch_body x c1) = Some ''Failed to initialize map''
        \<and> banner (catch_body x c1) = Some ''Failed to initialize map'')"
  by (auto simp: useEffect_body_def catch_body_def banner_def split: option.splits sum.splits)

theorem initialisation_never_throws_witness:
  "useEffect_body no_webgl ''pk.token'' (attach 7 (initial [] [])) =
     Inr (catch_body (Thrown ''WebGL'')
            ((attach 7 (initial [] []))\<lparr>calls := [New_Map (options 7)]\<rparr>), True)
   \<and> mapError (catch_body (Thrown ''WebGL'')
            ((attach 7 (initial [] []))\<lparr>calls := [New_Map (options 7)]\<rparr>)) =
       Some ''Failed to initialize map''
   \<and> useEffect_body no_controls ''pk.token'' (attach 7 (initial [] [])) =
     Inr (catch_body (Thrown ''control'')
          ((attach 7 (initial [] []))
            \<lparr>map_current := Some 0,
             calls := [New_Map (options 7), Map_on 0 ''load'' None Load_listener,
                       Map_on 0 ''error'' None Error_listener, New_NavigationControl,
                       Map_addControl 0 ''top-right'']\<rparr>), True)"
proof -
  have a: "map_current (attach 7 (initial [] [])) = None"
    "mapContainer_current (attach 7 (initial [] [])) = Some 7" "''pk.token'' \<noteq> []"
    by (simp_all add: attach_def initial_def)
  show ?thesis
    using a try_body_no_webgl try_body_no_controls
      initialisation_never_throws [of no_webgl "''pk.token''" "attach 7 (initial [] [])"]
      initialisation_never_throws [of no_controls "''pk.token''" "attach 7 (initial [] [])"]
    by blast
qed

text \<open>
  C8. The error listener returns normally with \<open>mapError\<close> set to the generic message
  "Error loading map" (shown by the banner) and the event logged. Everything else is as
  before: both refs, the court collection, the store, the cursor, and the trace, so
  \<open>remove\<close> is not invoked and a live handle stays live.
\<close>

theorem runtime_error_keeps_widget:
  "error_listener e c =
     Inr (c\<lparr>console := console c @ [Console_error ''Map error:'' e],
            mapError := Some ''Error loading map''\<rparr>)
   \<and> mapError (final_state (error_listener e c)) = Some ''Error loading map''
   \<and> banner (final_state (error_listener e c)) = Some ''Error loading map''
   \<and> map_current (final_state (error_listener e c)) = map_current c
   \<and> mapContainer_current (final_state (error_listener e c)) = mapContainer_current c
   \<and> typedBasketballCourts (final_state (error_listener e c)) = typedBasketballCourts c
   \<and> arrays (final_state (error_listener e c)) = arrays c
   \<and> calls (final_state (error_listener e c)) = calls c
   \<and> canvas_cursor (final_state (error_listener e c)) = canvas_cursor c
   \<and> count_calls is_Map_remove (final_state (error_listener e c)) = count_calls is_Map_remove c
   \<and> (map_current c \<noteq> None \<longrightarrow> map_current (final_state (error_listener e c)) \<noteq> None)"
  by (simp add: error_listener_def banner_def count_calls_def)

theorem runtime_error_keeps_widget_witness:
  "banner (final_state (error_listener (Thrown ''tile'') live)) = Some ''Error loading map''
   \<and> map_current (final_state (error_listener (Thrown ''tile'') live)) = Some 0
   \<and> calls (final_state (error_listener (Thrown ''tile'') live)) = calls live
   \<and> count_calls is_Map_remove (final_state (error_listener (Thrown ''tile'') live)) = 0"
proof -
  have a: "map_current live = Some 0" "count_calls is_Map_remove live = 0"
    by (simp_all add: live_eq count_calls_def is_Map_remove_def)
  show ?thesis
    using runtime_error_keeps_widget [of "Thrown ''tile''" live, THEN conjunct2]
    by (simp add: a)
qed

subsection \<open>The court data\<close>

lemma click_frame:
  "typedBasketballCourts (final_state (click_listener lib fs c)) = typedBasketballCourts c"
  "take (length (arrays c)) (arrays (final_state (click_listener lib fs c))) = arrays c"
  "Popup_setLngLat a \<in> set (drop (length (calls c)) (calls (final_state (click_listener lib fs c))))
     \<Longrightarrow> a = length (arrays c)"
  by (auto simp: click_listener_def slice_array_def invoke_def and_then_def Let_def
        split: option.splits list.splits sum.splits if_splits)

lemma set_cursor_frame:
  "typedBasketballCourts (final_state (set_cursor lib s c)) = typedBasketballCourts c"
  "arrays (final_state (set_cursor lib s c)) = arrays c"
  "Popup_setLngLat a \<notin> set (drop (length (calls c)) (calls (final_state (set_cursor lib s c))))"
  by (auto simp: set_cursor_def invoke_def and_then_def Let_def split: option.splits sum.splits)

lemma load_frame:
  "typedBasketballCourts (final_state (load_listener lib c)) = typedBasketballCourts c"
  "arrays (final_state (load_listener lib c)) = arrays c"
  "Popup_setLngLat a \<notin> set (drop (length (calls c)) (calls (final_state (load_listener lib c))))"
  by (auto simp: load_listener_def on_map_def invoke_def and_then_def Let_def
        split: option.splits sum.splits)

lemma error_frame:
  "typedBasketballCourts (final_state (error_listener e c)) = typedBasketballCourts c"
  "arrays (final_state (error_listener e c)) = arrays c"
  "Popup_setLngLat a \<notin> set (drop (length (calls c)) (calls (final_state (error_listener e c))))"
  by (simp_all add: error_listener_def)

text \<open>
  C9. Whatever the library does, and whether the listener returns or throws, each of the
  listeners (click, mouseenter, mouseleave, and also load and error) leaves the court
  collection as it was: no record is changed, added or removed. Every array that was in the
  store is unchanged, in particular the coordinate array of every court. The only array
  the click listener hands to the library is a new one, the copy made by \<open>slice()\<close>.
\<close>

theorem poi_data_immutable:
  assumes "r = click_listener lib fs c \<or> r = mouseenter_listener lib c
         \<or> r = mouseleave_listener lib c \<or> r = load_listener lib c \<or> r = error_listener e c"
  shows "typedBasketballCourts (final_state r) = typedBasketballCourts c
       \<and> take (length (arrays c)) (arrays (final_state r)) = arrays c
       \<and> (\<forall>f \<in> set (typedBasketballCourts c). geometry_coordinates f < length (arrays c) \<longrightarrow>
            arrays (final_state r) ! geometry_coordinates f = arrays c ! geometry_coordinates f)
       \<and> (\<forall>a. Popup_setLngLat a \<in> set (drop (length (calls c)) (calls (final_state r))) \<longrightarrow>
            a = length (arrays c))"
proof -
  have courts: "typedBasketballCourts (final_state r) = typedBasketballCourts c"
    using assms
    by (auto simp: click_frame set_cursor_frame load_frame error_frame
          mouseenter_listener_def mouseleave_listener_def)
  have store: "take (length (arrays c)) (arrays (final_state r)) = arrays c"
    using assms
    by (auto simp: click_frame set_cursor_frame load_frame error_frame
          mouseenter_listener_def mouseleave_listener_def)
  have nth: "arrays (final_state r) ! i = arrays c ! i" if "i < length (arrays c)" for i
  proof -
    have "arrays c ! i = take (length (arrays c)) (arrays (final_state r)) ! i"
      by (simp only: store)
    also have "\<dots> = arrays (final_state r) ! i"
      using that by simp
    finally show ?thesis by simp
  qed
  have fresh: "a = length (arrays c)"
    if "Popup_setLngLat a \<in> set (drop (length (calls c)) (calls (final_state r)))" for a
    using assms that
    by (auto simp: set_cursor_frame load_frame error_frame
          mouseenter_listener_def mouseleave_listener_def dest: click_frame(3))
  show ?thesis
    using courts store nth fresh by blast
qed

theorem poi_data_immutable_witness:
  "typedBasketballCourts (final_state (click_listener quiet (Some [court_A]) live)) = [court_A]
   \<and> take 1 (arrays (final_state (click_listener quiet (Some [court_A]) live))) = [[139.7, 35.66]]
   \<and> arrays (final_state (click_listener quiet (Some [court_A]) live)) ! 0 = [139.7, 35.66]"
proof -
  have a: "typedBasketballCourts live = [court_A]" "arrays live = [[139.7, 35.66]]"
    "geometry_coordinates court_A = 0"
    by (simp_all add: live_simps court_A_def)
  have "click_listener quiet (Some [court_A]) live = click_listener quiet (Some [court_A]) live
         \<or> click_listener quiet (Some [court_A]) live = mouseenter_listener quiet live
         \<or> click_listener quiet (Some [court_A]) live = mouseleave_listener quiet live
         \<or> click_listener quiet (Some [court_A]) live = load_listener quiet live
         \<or> click_listener quiet (Some [court_A]) live = error_listener TypeError live"
    by simp
  from poi_data_immutable [OF this] show ?thesis
    by (simp add: a)
qed

subsection \<open>No container\<close>

text \<open>
  C10. When the effect runs with no live handle and no container attached, it returns at
  once, before the token is looked at: for every token, empty or not, the state is
  unchanged (no library call, \<open>mapError\<close> and the banner as they were, the handle still
  \<open>null\<close>) and no cleanup is returned. In a component that showed no error, none is
  shown afterwards.
\<close>

theorem no_container_silent:
  assumes "map_current c = None" and "mapContainer_current c = None"
  shows "useEffect_body lib token c = Inr (c, False)
       \<and> mapError (fst (returned (useEffect_body lib token c))) = mapError c
       \<and> banner (fst (returned (useEffect_body lib token c))) = banner c
       \<and> calls (fst (returned (useEffect_body lib token c))) = calls c
       \<and> map_current (fst (returned (useEffect_body lib token c))) = None
       \<and> (mapError c = None \<longrightarrow> banner (fst (returned (useEffect_body lib token c))) = None)"
  using assms by (simp add: useEffect_body_def banner_def)

theorem no_container_silent_witness:
  "useEffect_body quiet [] (initial [] []) = Inr (initial [] [], False)
   \<and> mapError (fst (returned (useEffect_body quiet [] (initial [] [])))) = None
   \<and> banner (fst (returned (useEffect_body quiet [] (initial [] [])))) = None
   \<and> calls (fst (returned (useEffect_body quiet [] (initial [] [])))) = []
   \<and> useEffect_body quiet ''pk.token'' (initial [] []) = Inr (initial [] [], False)"
proof -
  have a: "map_current (initial [] []) = None" "mapContainer_current (initial [] []) = None"
    "mapError (initial [] []) = None" "banner (initial [] []) = None" "calls (initial [] []) = []"
    by (simp_all add: initial_def banner_def)
  show ?thesis
    using no_container_silent [OF a(1,2), of quiet "[]"]
      no_container_silent [OF a(1,2), of quiet "''pk.token''"]
    by (simp add: a)
qed

end
